theory Spec2Isabelle
  imports Complex_Main
begin

section \<open>Strings and regular expressions of the host language\<close>

text \<open>
  A string is a list of code units; the model covers code units below 256
  (\<^typ>\<open>char\<close>), read as Latin-1 code points. \<open>toLowerCase\<close> maps the
  upper-case letters of that range to their lower-case partners and leaves
  every other code unit alone.
\<close>

definition code :: "char \<Rightarrow> nat" where
  "code c = of_char c"

definition in_range :: "char \<Rightarrow> char \<Rightarrow> char \<Rightarrow> bool" where
  "in_range lo hi c = (code lo \<le> code c \<and> code c \<le> code hi)"

definition lower_char :: "char \<Rightarrow> char" where
  "lower_char c =
     (if in_range (CHR ''A'') (CHR ''Z'') c then char_of (code c + 32)
      else if in_range (CHR 0xC0) (CHR 0xDE) c \<and> c \<noteq> CHR 0xD7 then char_of (code c + 32)
      else c)"

definition toLowerCase :: "string \<Rightarrow> string" where
  "toLowerCase s = map lower_char s"

text \<open>
  \<open>Canonicalize\<close> of a regular expression with the \<open>i\<close> flag (and no \<open>u\<close> flag):
  the code unit's upper-case form when that is a single code unit; within
  code units below 256 only the letters with an upper-case partner below 256
  change.
\<close>

definition canonicalize :: "char \<Rightarrow> char" where
  "canonicalize c =
     (if in_range (CHR ''a'') (CHR ''z'') c then char_of (code c - 32)
      else if in_range (CHR 0xE0) (CHR 0xFE) c \<and> c \<noteq> CHR 0xF7 then char_of (code c - 32)
      else c)"

text \<open>
  The regular expressions of the sources use literals, character classes,
  sequence, alternation and the quantifiers \<open>+\<close> and \<open>{n,}\<close>, with the
  anchors \<open>^\<close> and \<open>$\<close> at the two ends only, and the flag \<open>i\<close>.
  \<open>Rep n r\<close> is \<open>r{n,}\<close>, so \<open>r+\<close> is \<open>Rep 1 r\<close>.
\<close>

datatype rexp =
    Lit string
  | Cls "(char \<times> char) list"
  | Seq rexp rexp
  | Alt rexp rexp
  | Rep nat rexp

record regex =
  bol :: bool
  body :: rexp
  eol :: bool
  ignoreCase :: bool

definition chr_eq :: "bool \<Rightarrow> char \<Rightarrow> char \<Rightarrow> bool" where
  "chr_eq ic p c = (if ic then canonicalize p = canonicalize c else p = c)"

definition members :: "(char \<times> char) list \<Rightarrow> char list" where
  "members cs = concat (map (\<lambda>(lo, hi). map char_of [code lo ..< Suc (code hi)]) cs)"

definition in_cls :: "bool \<Rightarrow> (char \<times> char) list \<Rightarrow> char \<Rightarrow> bool" where
  "in_cls ic cs c =
     (if ic then list_ex (\<lambda>a. canonicalize a = canonicalize c) (members cs)
      else list_ex (\<lambda>(lo, hi). in_range lo hi c) cs)"

text \<open>
  The matcher is the backtracking one: \<open>adv ic r s\<close> lists what is left of
  \<open>s\<close> after each way of matching \<open>r\<close> at its start. Once the minimum of a
  quantifier is reached an iteration that consumes nothing is rejected, so
  the number of further iterations is bounded by the length of the input.
\<close>

fun lit_adv :: "bool \<Rightarrow> string \<Rightarrow> string \<Rightarrow> string list" where
  "lit_adv ic [] s = [s]"
| "lit_adv ic (p # ps) [] = []"
| "lit_adv ic (p # ps) (c # cs) = (if chr_eq ic p c then lit_adv ic ps cs else [])"

fun reps :: "(string \<Rightarrow> string list) \<Rightarrow> nat \<Rightarrow> nat \<Rightarrow> string \<Rightarrow> string list" where
  "reps f (Suc n) fuel s = concat (map (reps f n fuel) (f s))"
| "reps f 0 0 s = [s]"
| "reps f 0 (Suc k) s =
     concat (map (reps f 0 k) (filter (\<lambda>t. length t < length s) (f s))) @ [s]"

primrec adv :: "bool \<Rightarrow> rexp \<Rightarrow> string \<Rightarrow> string list" where
  "adv ic (Lit w) s = lit_adv ic w s"
| "adv ic (Cls cs) s =
     (case s of [] \<Rightarrow> [] | c # t \<Rightarrow> if in_cls ic cs c then [t] else [])"
| "adv ic (Seq a b) s = concat (map (adv ic b) (adv ic a s))"
| "adv ic (Alt a b) s = adv ic a s @ adv ic b s"
| "adv ic (Rep n a) s = reps (adv ic a) n (length s) s"

definition match_here :: "regex \<Rightarrow> string \<Rightarrow> bool" where
  "match_here re s =
     (if eol re then [] \<in> set (adv (ignoreCase re) (body re) s)
      else adv (ignoreCase re) (body re) s \<noteq> [])"

fun search :: "regex \<Rightarrow> string \<Rightarrow> bool" where
  "search re [] = match_here re []"
| "search re (c # s) = (match_here re (c # s) \<or> search re s)"

definition test :: "regex \<Rightarrow> string \<Rightarrow> bool" where
  "test re s = (if bol re then match_here re s else search re s)"

definition rx :: "rexp \<Rightarrow> regex" where
  "rx r = \<lparr>bol = False, body = r, eol = False, ignoreCase = False\<rparr>"

abbreviation one_or_more :: "rexp \<Rightarrow> rexp" where
  "one_or_more r \<equiv> Rep 1 r"

abbreviation lower_az :: "char \<times> char" where
  "lower_az \<equiv> (CHR ''a'', CHR ''z'')"

abbreviation upper_az :: "char \<times> char" where
  "upper_az \<equiv> (CHR ''A'', CHR ''Z'')"

abbreviation digit :: "char \<times> char" where
  "digit \<equiv> (CHR ''0'', CHR ''9'')"

section \<open>ProfileAnalyzer\<close>

text \<open>
  Modelled from the spec: the declarations of \<open>types/profile\<close> (\<open>Profile\<close>,
  \<open>BotAnalysis\<close>) are not among the sources. A profile has the fields the
  analyzer reads, a \<open>BotAnalysis\<close> the two fields it returns, as in the data
  model of the specification.
\<close>

record Profile =
  username :: string
  followersCount :: int
  followingCount :: int

record BotAnalysis =
  probability :: real
  reasons :: "string list"

subsection \<open>PATTERNS\<close>

definition randomAlphanumeric :: regex where
  "randomAlphanumeric = (rx (Rep 8 (Cls [lower_az, digit])))\<lparr>bol := True, eol := True\<rparr>"

definition manyNumbers :: regex where
  "manyNumbers = rx (Rep 4 (Cls [digit]))"

definition botKeywords :: regex where
  "botKeywords =
     rx (Alt (Lit ''bot'') (Alt (Lit ''spam'')
        (Seq (one_or_more (Cls [digit])) (Seq (one_or_more (Cls [lower_az])) (one_or_more (Cls [digit]))))))"

definition randomSuffix :: regex where
  "randomSuffix = (rx (Seq (one_or_more (Cls [lower_az])) (Rep 4 (Cls [digit]))))\<lparr>eol := True\<rparr>"

definition numericSuffix :: regex where
  "numericSuffix = (rx (Rep 4 (Cls [digit])))\<lparr>eol := True\<rparr>"

definition randomLetters :: regex where
  "randomLetters = rx (Seq (Rep 2 (Cls [upper_az])) (one_or_more (Cls [digit])))"

definition community :: regex where
  "community = (rx (Lit ''i/communities/''))\<lparr>bol := True\<rparr>"

subsection \<open>SCORES\<close>

text \<open>
  The weights are the decimal numbers the source writes, and sums are exact:
  the rounding of binary floating point is not part of the model.
\<close>

definition SCORES_noFollowers :: real where "SCORES_noFollowers = 0.3"
definition SCORES_randomAlphanumeric :: real where "SCORES_randomAlphanumeric = 0.3"
definition SCORES_manyNumbers :: real where "SCORES_manyNumbers = 0.2"
definition SCORES_botKeywords :: real where "SCORES_botKeywords = 0.3"
definition SCORES_randomSuffix :: real where "SCORES_randomSuffix = 0.2"
definition SCORES_numericSuffix :: real where "SCORES_numericSuffix = 0.2"
definition SCORES_randomLetters :: real where "SCORES_randomLetters = 0.2"

subsection \<open>calculateBotProbability and analyzeBotProbability\<close>

text \<open>
  \<open>add_if b w score\<close> is the statement \<open>if (b) { score += w; }\<close> and
  \<open>push_if b r reasons\<close> the statement \<open>if (b) { reasons.push(r); }\<close>.
  \<open>accumulated\<close> is the variable \<open>score\<close> of \<open>calculateBotProbability\<close>
  just before the cap.
\<close>

definition add_if :: "bool \<Rightarrow> real \<Rightarrow> real \<Rightarrow> real" where
  "add_if b w score = (if b then score + w else score)"

definition push_if :: "bool \<Rightarrow> string \<Rightarrow> string list \<Rightarrow> string list" where
  "push_if b r rs = (if b then rs @ [r] else rs)"

definition accumulated :: "'a Profile_scheme \<Rightarrow> real" where
  "accumulated profile =
     (let score = 0;
          score = add_if (followersCount profile = 0 \<and> followingCount profile = 0)
                    SCORES_noFollowers score;
          uname = toLowerCase (username profile);
          score = add_if (test randomAlphanumeric uname) SCORES_randomAlphanumeric score;
          score = add_if (test manyNumbers uname) SCORES_manyNumbers score;
          score = add_if (test botKeywords uname) SCORES_botKeywords score;
          score = add_if (test randomSuffix uname) SCORES_randomSuffix score;
          score = add_if (test numericSuffix uname) SCORES_numericSuffix score;
          score = add_if (test randomLetters uname) SCORES_randomLetters score
      in score)"

definition calculateBotProbability :: "'a Profile_scheme \<Rightarrow> real" where
  "calculateBotProbability profile = min (accumulated profile) 0.9"

definition analyzeBotProbability :: "'a Profile_scheme \<Rightarrow> BotAnalysis" where
  "analyzeBotProbability profile =
     (if test community (username profile) then \<lparr>probability = 0, reasons = []\<rparr>
      else
        let p = calculateBotProbability profile;
            rs = [];
            rs = push_if (followersCount profile = 0 \<and> followingCount profile = 0)
                   ''No followers or following'' rs;
            uname = toLowerCase (username profile);
            rs = push_if (test randomAlphanumeric uname) ''Random alphanumeric username'' rs;
            rs = push_if (test manyNumbers uname) ''Username contains many numbers'' rs;
            rs = push_if (test botKeywords uname) ''Username contains bot-like keywords'' rs;
            rs = push_if (test randomSuffix uname) ''Username has random number suffix'' rs;
            rs = push_if (test numericSuffix uname) ''Username ends with many numbers'' rs;
            rs = push_if (test randomLetters uname) ''Username has random letters and numbers'' rs
        in \<lparr>probability = p, reasons = rs\<rparr>)"


section \<open>The rendered page\<close>

text \<open>
  A node of the page is an element (with its namespace: HTML or not, local
  name, attributes in source order and children) or a text node. An
  \<open>HTMLElement\<close> handed to the detector is an HTML element together with the
  way up to the root: each \<open>crumb\<close> is an ancestor with the siblings to the
  left and to the right of the step below it.
\<close>

datatype node =
    Element bool string "(string \<times> string) list" "node list"
  | Text string

datatype crumb = Crumb bool string "(string \<times> string) list" "node list" "node list"

record HTMLElement =
  tagName :: string
  attrs :: "(string \<times> string) list"
  children :: "node list"
  parents :: "crumb list"

definition as_node :: "HTMLElement \<Rightarrow> node" where
  "as_node el = Element True (tagName el) (attrs el) (children el)"

fun getAttribute :: "node \<Rightarrow> string \<Rightarrow> string option" where
  "getAttribute (Element h t as cs) name = map_of as name"
| "getAttribute (Text s) name = None"

definition hasAttribute :: "HTMLElement \<Rightarrow> string \<Rightarrow> bool" where
  "hasAttribute el name = (name \<in> fst ` set (attrs el))"

fun set_attr :: "string \<Rightarrow> string \<Rightarrow> (string \<times> string) list \<Rightarrow> (string \<times> string) list" where
  "set_attr name v [] = [(name, v)]"
| "set_attr name v ((k, w) # as) =
     (if k = name then (k, v) # as else (k, w) # set_attr name v as)"

definition setAttribute :: "HTMLElement \<Rightarrow> string \<Rightarrow> string \<Rightarrow> HTMLElement" where
  "setAttribute el name v = el\<lparr>attrs := set_attr name v (attrs el)\<rparr>"

fun textContent :: "node \<Rightarrow> string" where
  "textContent (Text s) = s"
| "textContent (Element h t as cs) = concat (map textContent cs)"

fun descendants :: "node \<Rightarrow> node list" where
  "descendants (Text s) = []"
| "descendants (Element h t as cs) = concat (map (\<lambda>c. c # descendants c) cs)"

subsection \<open>String operations\<close>

definition startsWith :: "string \<Rightarrow> string \<Rightarrow> bool" where
  "startsWith s p = (take (length p) s = p)"

fun str_includes :: "string \<Rightarrow> string \<Rightarrow> bool" where
  "str_includes [] p = (p = [])"
| "str_includes (c # s) p = (startsWith (c # s) p \<or> str_includes s p)"

definition slice1 :: "string \<Rightarrow> string" where
  "slice1 s = drop 1 s"

definition is_white_space :: "char \<Rightarrow> bool" where
  "is_white_space c = (code c \<in> {9, 10, 11, 12, 13, 32, 160})"

definition trim :: "string \<Rightarrow> string" where
  "trim s = rev (dropWhile is_white_space (rev (dropWhile is_white_space s)))"

definition is_ascii_whitespace :: "char \<Rightarrow> bool" where
  "is_ascii_whitespace c = (code c \<in> {9, 10, 12, 13, 32})"

fun tokens :: "string \<Rightarrow> string \<Rightarrow> string list" where
  "tokens cur [] = (if cur = [] then [] else [cur])"
| "tokens cur (c # s) =
     (if is_ascii_whitespace c then (if cur = [] then tokens [] s else cur # tokens [] s)
      else tokens (cur @ [c]) s)"

definition classList_contains :: "HTMLElement \<Rightarrow> string \<Rightarrow> bool" where
  "classList_contains el token =
     (case map_of (attrs el) ''class'' of
        None \<Rightarrow> False
      | Some v \<Rightarrow> token \<in> set (tokens [] v))"

subsection \<open>Selectors\<close>

text \<open>
  The selectors of the sources are compound selectors: an optional type
  selector and attribute selectors \<open>[name="value"]\<close> (\<open>AttrEq\<close>) and
  \<open>[name*="value"]\<close> (\<open>AttrHas\<close>).
\<close>

datatype attr_test = AttrEq string string | AttrHas string string

record selector =
  sel_type :: "string option"
  sel_attrs :: "attr_test list"

fun attr_ok :: "node \<Rightarrow> attr_test \<Rightarrow> bool" where
  "attr_ok n (AttrEq name v) = (getAttribute n name = Some v)"
| "attr_ok n (AttrHas name v) =
     (case getAttribute n name of None \<Rightarrow> False | Some w \<Rightarrow> v \<noteq> [] \<and> str_includes w v)"

fun matches :: "selector \<Rightarrow> node \<Rightarrow> bool" where
  "matches sel (Text s) = False"
| "matches sel (Element h t as cs) =
     ((case sel_type sel of None \<Rightarrow> True | Some ty \<Rightarrow> t = ty)
      \<and> list_all (attr_ok (Element h t as cs)) (sel_attrs sel))"

definition querySelectorAll :: "node \<Rightarrow> selector \<Rightarrow> node list" where
  "querySelectorAll n sel = filter (matches sel) (descendants n)"

definition querySelector :: "node \<Rightarrow> selector \<Rightarrow> node option" where
  "querySelector n sel = (case querySelectorAll n sel of [] \<Rightarrow> None | x # xs \<Rightarrow> Some x)"

text \<open>\<open>document.querySelector\<close>: the root element is a candidate too.\<close>

definition document_querySelector :: "node \<Rightarrow> selector \<Rightarrow> node option" where
  "document_querySelector doc sel =
     (case filter (matches sel) (doc # descendants doc) of [] \<Rightarrow> None | x # xs \<Rightarrow> Some x)"

text \<open>
  \<open>closest\<close>: the element itself, then its ancestors from the inside out.
  An ancestor is rebuilt from its crumb around the subtree below it.
\<close>

fun closest_from :: "selector \<Rightarrow> node \<Rightarrow> crumb list \<Rightarrow> node option" where
  "closest_from sel n [] = (if matches sel n then Some n else None)"
| "closest_from sel n (Crumb h t as left right # up) =
     (if matches sel n then Some n
      else closest_from sel (Element h t as (left @ [n] @ right)) up)"

definition closest :: "HTMLElement \<Rightarrow> selector \<Rightarrow> node option" where
  "closest el sel = closest_from sel (as_node el) (parents el)"


fun instanceof_HTMLElement :: "node \<Rightarrow> bool" where
  "instanceof_HTMLElement (Element h t as cs) = h"
| "instanceof_HTMLElement (Text s) = False"

section \<open>DOMExtractor\<close>

text \<open>
  Modelled from the spec: the declarations of \<open>types/profile\<close>
  (\<open>NotificationType\<close>, \<open>InteractionType\<close>, \<open>ProfileData\<close>) are not among the
  sources. The variants are those the extractor names, the fields of
  \<open>ProfileData\<close> those it writes; \<open>ProfileData\<close> extends \<open>Profile\<close>, since
  the detector hands it to the analyzer. \<open>UserProfileData\<close> is the
  extractor's own variant of it, whose \<open>notificationType\<close> is one of two
  strings.
\<close>

datatype NotificationType = PinnedPost | Trending | CommunityPost | UserInteraction | MultiUser

datatype UserNotificationType = user_interaction | multi_user

datatype InteractionType = Like | Reply | Repost | Follow

record 'nt ProfileData = Profile +
  displayName :: string
  profileImageUrl :: string
  interactionTimestamp :: int
  interactionType :: InteractionType
  notificationType :: 'nt

type_synonym UserProfileData = "UserNotificationType ProfileData"

record NotificationData =
  ntype :: NotificationType
  ntext :: string
  users :: "UserProfileData list option"

datatype error = SyntaxError | Thrown string

text \<open>
  What the extractor reads from the browser besides the tree:
  \<open>dateNow k\<close> is the reading of the \<open>k\<close>-th call of \<open>Date.now()\<close>,
  \<open>resolveURL\<close> the \<open>src\<close> property of an image from its attribute (the
  attribute parsed against the address of the page),
  \<open>backgroundImage\<close> the computed \<open>background-image\<close> of an element, and
  \<open>rawQuery\<close> the answer of \<open>querySelector\<close> to a selector text whose
  quoted value holds a character that a CSS string does not take literally
  (it may throw a \<open>SyntaxError\<close>).
\<close>

record env =
  dateNow :: "nat \<Rightarrow> int"
  resolveURL :: "string \<Rightarrow> string"
  backgroundImage :: "node \<Rightarrow> string"
  rawQuery :: "string \<Rightarrow> node \<Rightarrow> error + node option"

subsection \<open>SELECTORS and PATTERNS\<close>

definition testid :: "string \<Rightarrow> selector" where
  "testid v = \<lparr>sel_type = None, sel_attrs = [AttrEq ''data-testid'' v]\<rparr>"

definition CELL :: selector where "CELL = testid ''cellInnerDiv''"
definition NOTIFICATION :: selector where "NOTIFICATION = testid ''notification''"
definition USER_NAME :: selector where "USER_NAME = testid ''UserName''"
definition USER_AVATAR :: selector where "USER_AVATAR = testid ''UserAvatar''"
definition TWEET_TEXT :: selector where "TWEET_TEXT = testid ''tweetText''"

definition rxi :: "string \<Rightarrow> regex" where
  "rxi w = (rx (Lit w))\<lparr>ignoreCase := True\<rparr>"

definition PINNED_POST :: regex where "PINNED_POST = rxi ''new pinned post in''"
definition TRENDING :: regex where "TRENDING = rxi ''trending in''"
definition COMMUNITY_POST :: regex where "COMMUNITY_POST = rxi ''new community post in''"
definition MULTI_USER :: regex where "MULTI_USER = rxi ''new post notifications for''"
definition LIKE :: regex where "LIKE = rxi ''liked''"
definition REPLY :: regex where "REPLY = rxi ''replied''"
definition REPOST :: regex where "REPOST = rxi ''reposted''"
definition FOLLOW :: regex where "FOLLOW = rxi ''followed''"

subsection \<open>extractProfileImage\<close>

text \<open>
  \<open>unwrap_url\<close> is \<open>replace(/^url\(['"](.+)['"]\)$/, '$1')\<close>: the pattern
  is anchored at both ends, so it matches only the whole string, and the
  group is then everything between the opening \<open>url(\<close> with its quote and
  the closing quote with \<open>)\<close>; \<open>.\<close> takes no line terminator.
\<close>

definition is_quote :: "char \<Rightarrow> bool" where
  "is_quote c = (c = CHR 0x27 \<or> c = CHR 0x22)"

definition is_line_terminator :: "char \<Rightarrow> bool" where
  "is_line_terminator c = (c = CHR 0x0A \<or> c = CHR 0x0D)"

definition unwrap_url :: "string \<Rightarrow> string" where
  "unwrap_url s =
     (let n = length s; inner = take (n - 7) (drop 5 s) in
      if 8 \<le> n \<and> take 4 s = ''url('' \<and> is_quote (s ! 4)
         \<and> \<not> list_ex is_line_terminator inner
         \<and> is_quote (s ! (n - 2)) \<and> s ! (n - 1) = CHR '')''
      then inner else s)"

fun src_property :: "env \<Rightarrow> node \<Rightarrow> string" where
  "src_property e (Element h t as cs) =
     (if h then (case map_of as ''src'' of None \<Rightarrow> [] | Some v \<Rightarrow> resolveURL e v) else [])"
| "src_property e (Text s) = []"

fun first_background :: "env \<Rightarrow> node list \<Rightarrow> string option" where
  "first_background e [] = None"
| "first_background e (el # els) =
     (let bgImage = backgroundImage e el in
      if bgImage \<noteq> [] \<and> bgImage \<noteq> ''none'' \<and> str_includes bgImage ''profile_images''
      then Some (unwrap_url bgImage)
      else first_background e els)"

definition extractProfileImage :: "env \<Rightarrow> node \<Rightarrow> string option" where
  "extractProfileImage e container =
     (let fallback = first_background e
            (querySelectorAll container \<lparr>sel_type = None, sel_attrs = [AttrHas ''style'' ''background-image'']\<rparr>)
      in case querySelector container
                \<lparr>sel_type = Some ''img'', sel_attrs = [AttrHas ''src'' ''profile_images'']\<rparr> of
           None \<Rightarrow> fallback
         | Some img \<Rightarrow> if src_property e img \<noteq> [] then Some (src_property e img) else fallback)"

subsection \<open>parseNotification\<close>

definition determineInteractionType :: "string \<Rightarrow> InteractionType" where
  "determineInteractionType txt =
     (if test LIKE txt then Like
      else if test REPLY txt then Reply
      else if test REPOST txt then Repost
      else Follow)"

definition is_user_link :: "node \<Rightarrow> bool" where
  "is_user_link link =
     (case getAttribute link ''href'' of
        None \<Rightarrow> False
      | Some href \<Rightarrow> startsWith href ''/'' \<and> \<not> str_includes href ''/i/'')"

text \<open>
  The avatar container is looked up with the selector text
  \<open>[data-testid="UserAvatar-Container-\<dots>"]\<close> built from the user name. When
  every character of the name stands for itself inside the quotes, that is
  the attribute selector with this value; otherwise the browser's parse of
  the text decides.
\<close>

definition css_plain :: "string \<Rightarrow> bool" where
  "css_plain s = (\<not> list_ex (\<lambda>c. code c \<in> {0, 10, 12, 13, 34, 92}) s)"

definition avatar_selector :: "string \<Rightarrow> string" where
  "avatar_selector uname =
     ''[data-testid='' @ [CHR 0x22] @ ''UserAvatar-Container-'' @ uname @ [CHR 0x22] @ '']''"

definition avatar_container :: "env \<Rightarrow> node \<Rightarrow> string \<Rightarrow> error + node option" where
  "avatar_container e cell uname =
     (if css_plain uname then Inr (querySelector cell (testid (''UserAvatar-Container-'' @ uname)))
      else rawQuery e (avatar_selector uname) cell)"

definition build_user :: "env \<Rightarrow> node \<Rightarrow> string \<Rightarrow> nat \<Rightarrow> node \<Rightarrow> error + UserProfileData option" where
  "build_user e cell txt k link =
     (case getAttribute link ''href'' of
        None \<Rightarrow> Inr None
      | Some href \<Rightarrow>
          let uname = slice1 href in
          if uname = [] then Inr None
          else case avatar_container e cell uname of
            Inl err \<Rightarrow> Inl err
          | Inr None \<Rightarrow> Inr None
          | Inr (Some avatarContainer) \<Rightarrow>
              (case extractProfileImage e avatarContainer of
                 None \<Rightarrow> Inr None
               | Some url \<Rightarrow>
                   if url = [] then Inr None
                   else
                     let trimmed = trim (textContent link);
                         isMultiUser = test MULTI_USER txt
                     in Inr (Some \<lparr>username = uname,
                                    followersCount = 0,
                                    followingCount = 0,
                                    displayName = (if trimmed = [] then uname else trimmed),
                                    profileImageUrl = url,
                                    interactionTimestamp = dateNow e k,
                                    interactionType = determineInteractionType txt,
                                    notificationType =
                                      (if isMultiUser then multi_user else user_interaction)\<rparr>)))"

text \<open>
  \<open>userLinks.map(\<dots>).filter(user \<Rightarrow> user !== null)\<close>: the links are visited in
  order, \<open>k\<close> counts the readings of the clock so far, and an exception
  ends the whole call.
\<close>

fun build_users :: "env \<Rightarrow> node \<Rightarrow> string \<Rightarrow> nat \<Rightarrow> node list \<Rightarrow> error + UserProfileData list" where
  "build_users e cell txt k [] = Inr []"
| "build_users e cell txt k (link # links) =
     (case build_user e cell txt k link of
        Inl err \<Rightarrow> Inl err
      | Inr None \<Rightarrow> build_users e cell txt k links
      | Inr (Some u) \<Rightarrow>
          (case build_users e cell txt (Suc k) links of
             Inl err \<Rightarrow> Inl err
           | Inr us \<Rightarrow> Inr (u # us)))"

definition userLinks :: "node \<Rightarrow> node list" where
  "userLinks cell =
     filter is_user_link
       (querySelectorAll cell \<lparr>sel_type = Some ''a'', sel_attrs = [AttrEq ''role'' ''link'']\<rparr>)"

definition parseNotification :: "env \<Rightarrow> node \<Rightarrow> error + NotificationData option" where
  "parseNotification e cell =
     (let txt = toLowerCase (textContent cell) in
      if test PINNED_POST txt then Inr (Some \<lparr>ntype = PinnedPost, ntext = txt, users = None\<rparr>)
      else if test TRENDING txt then Inr (Some \<lparr>ntype = Trending, ntext = txt, users = None\<rparr>)
      else if test COMMUNITY_POST txt
        then Inr (Some \<lparr>ntype = CommunityPost, ntext = txt, users = None\<rparr>)
      else if userLinks cell = [] then Inr None
      else case build_users e cell txt 0 (userLinks cell) of
        Inl err \<Rightarrow> Inl err
      | Inr us \<Rightarrow>
          if us = [] then Inr None
          else Inr (Some \<lparr>ntype = (if test MULTI_USER txt then MultiUser else UserInteraction),
                          ntext = txt, users = Some us\<rparr>))"

subsection \<open>extractProfileData\<close>

definition to_ProfileData :: "UserProfileData \<Rightarrow> NotificationType ProfileData" where
  "to_ProfileData u =
     \<lparr>username = username u,
      followersCount = followersCount u,
      followingCount = followingCount u,
      displayName = displayName u,
      profileImageUrl = profileImageUrl u,
      interactionTimestamp = interactionTimestamp u,
      interactionType = interactionType u,
      notificationType =
        (if notificationType u = multi_user then MultiUser else UserInteraction)\<rparr>"

definition extractProfileData :: "env \<Rightarrow> HTMLElement \<Rightarrow> NotificationType ProfileData option" where
  "extractProfileData e element =
     (if classList_contains element ''xbd-warning'' then None
      else case closest element CELL of
        None \<Rightarrow> None
      | Some cell \<Rightarrow>
          if \<not> instanceof_HTMLElement cell then None
          else case parseNotification e cell of
            Inl err \<Rightarrow> None
          | Inr None \<Rightarrow> None
          | Inr (Some notificationData) \<Rightarrow>
              (case users notificationData of
                 None \<Rightarrow> None
               | Some [] \<Rightarrow> None
               | Some (userProfile # others) \<Rightarrow>
                   if ntype notificationData \<noteq> UserInteraction
                      \<and> ntype notificationData \<noteq> MultiUser
                   then None
                   else Some (to_ProfileData userProfile)))"

section \<open>BotDetector\<close>

subsection \<open>processNotification\<close>

text \<open>
  One call of \<open>processNotification\<close>, run from its start to the end of its
  promise; calls that interleave at an \<open>await\<close> are not part of the model.
  The two collaborators whose code is not part of the sources are parameters:
  \<open>addBotWarningUI\<close> returns the notification element as the call leaves it,
  or throws; \<open>recordInteraction\<close> is awaited and either completes or rejects.
  The state is the notification element and the list of the calls made so
  far, in order. The result is the state together with the error the
  returned promise rejects with, if it does.
\<close>

record collaborators =
  addBotWarningUI :: "HTMLElement \<Rightarrow> real \<Rightarrow> string list \<Rightarrow> error + HTMLElement"
  recordInteraction :: "string \<Rightarrow> int \<Rightarrow> InteractionType \<Rightarrow> real \<Rightarrow> string list \<Rightarrow> error + unit"

datatype call =
    Call_extractProfileData
  | Call_analyzeBotProbability string
  | Call_addBotWarningUI real "string list"
  | Call_recordInteraction string int InteractionType real "string list"
  | Call_setAttribute string string

record detector =
  notification :: HTMLElement
  calls :: "call list"

definition called :: "call \<Rightarrow> detector \<Rightarrow> detector" where
  "called c s = s\<lparr>calls := calls s @ [c]\<rparr>"

definition mark_processed :: "detector \<Rightarrow> detector" where
  "mark_processed s =
     called (Call_setAttribute ''data-xbot-processed'' ''true'')
       (s\<lparr>notification := setAttribute (notification s) ''data-xbot-processed'' ''true''\<rparr>)"

definition processNotification :: "env \<Rightarrow> collaborators \<Rightarrow> detector \<Rightarrow> error option \<times> detector" where
  "processNotification e co s =
     (if hasAttribute (notification s) ''data-xbot-processed'' then (None, s)
      else
        let s = called Call_extractProfileData s in
        case extractProfileData e (notification s) of
          None \<Rightarrow> (None, s)
        | Some profileData \<Rightarrow>
            let s = called (Call_analyzeBotProbability (username profileData)) s;
                analysis = analyzeBotProbability profileData
            in
              if probability analysis > 0.5 then
                let s = called (Call_addBotWarningUI (probability analysis) (reasons analysis)) s in
                case addBotWarningUI co (notification s) (probability analysis) (reasons analysis) of
                  Inl err \<Rightarrow> (Some err, s)
                | Inr el \<Rightarrow>
                    let s = s\<lparr>notification := el\<rparr>;
                        s = called (Call_recordInteraction (username profileData)
                              (interactionTimestamp profileData) (interactionType profileData)
                              (probability analysis) (reasons analysis)) s
                    in
                      case recordInteraction co (username profileData)
                             (interactionTimestamp profileData) (interactionType profileData)
                             (probability analysis) (reasons analysis) of
                        Inl err \<Rightarrow> (Some err, s)
                      | Inr u \<Rightarrow> (None, mark_processed s)
              else (None, mark_processed s))"

subsection \<open>waitForNotificationsFeed\<close>

text \<open>
  The page changes while the detector waits: \<open>page k\<close> is the document
  after \<open>k\<close> delays of one second. \<open>retryCount\<close> is the field of the
  detector, \<open>delays\<close> counts the delays waited so far.
\<close>

definition maxRetries :: nat where "maxRetries = 10"

definition feed_selectors :: "selector list" where
  "feed_selectors =
     [\<lparr>sel_type = None, sel_attrs = [AttrEq ''aria-label'' ''Timeline: Notifications'']\<rparr>,
      testid ''primaryColumn'',
      testid ''notificationsTimeline'',
      \<lparr>sel_type = Some ''section'', sel_attrs = [AttrEq ''role'' ''region'']\<rparr>]"

fun first_feed :: "node \<Rightarrow> selector list \<Rightarrow> node option" where
  "first_feed doc [] = None"
| "first_feed doc (sel # sels) =
     (case document_querySelector doc sel of
        None \<Rightarrow> first_feed doc sels
      | Some feed \<Rightarrow> if instanceof_HTMLElement feed then Some feed else first_feed doc sels)"

record waiting =
  retryCount :: nat
  delays :: nat

function waitForNotificationsFeed :: "(nat \<Rightarrow> node) \<Rightarrow> waiting \<Rightarrow> node option \<times> waiting" where
  "waitForNotificationsFeed page s =
     (case first_feed (page (delays s)) feed_selectors of
        Some feed \<Rightarrow> (Some feed, s)
      | None \<Rightarrow>
          if retryCount s \<ge> maxRetries then (None, s)
          else waitForNotificationsFeed page
                 (s\<lparr>retryCount := retryCount s + 1, delays := delays s + 1\<rparr>))"
  by pat_completeness auto
termination
  by (relation "measure (\<lambda>(page, s). maxRetries - retryCount s)") auto

declare waitForNotificationsFeed.simps [simp del]


section \<open>Notions used in the statements\<close>

text \<open>
  The scoring conditions as the specification lists them: the no-followers
  condition first, then each username heuristic in table order, each with
  its weight and its reason string. \<open>matched\<close> keeps the conditions that
  hold for a profile.
\<close>

definition scoring_conditions :: "'a Profile_scheme \<Rightarrow> (bool \<times> real \<times> string) list" where
  "scoring_conditions profile =
     (let uname = toLowerCase (username profile) in
      [(followersCount profile = 0 \<and> followingCount profile = 0,
          SCORES_noFollowers, ''No followers or following''),
       (test randomAlphanumeric uname, SCORES_randomAlphanumeric, ''Random alphanumeric username''),
       (test manyNumbers uname, SCORES_manyNumbers, ''Username contains many numbers''),
       (test botKeywords uname, SCORES_botKeywords, ''Username contains bot-like keywords''),
       (test randomSuffix uname, SCORES_randomSuffix, ''Username has random number suffix''),
       (test numericSuffix uname, SCORES_numericSuffix, ''Username ends with many numbers''),
       (test randomLetters uname, SCORES_randomLetters,
          ''Username has random letters and numbers'')])"

definition matched :: "'a Profile_scheme \<Rightarrow> (bool \<times> real \<times> string) list" where
  "matched profile = filter fst (scoring_conditions profile)"

definition weight :: "bool \<times> real \<times> string \<Rightarrow> real" where
  "weight c = fst (snd c)"

definition reason :: "bool \<times> real \<times> string \<Rightarrow> string" where
  "reason c = snd (snd c)"

definition link_username :: "node \<Rightarrow> string" where
  "link_username link = (case getAttribute link ''href'' of None \<Rightarrow> [] | Some href \<Rightarrow> slice1 href)"

definition builds :: "env \<Rightarrow> node \<Rightarrow> string \<Rightarrow> node \<Rightarrow> bool" where
  "builds e cell txt link =
     (case build_user e cell txt 0 link of Inl err \<Rightarrow> False | Inr None \<Rightarrow> False | Inr (Some u) \<Rightarrow> True)"

text \<open>
  The lookup of a link's avatar container throws when the user name of the
  link is not plain and the browser refuses the selector text.
\<close>

definition lookup_fails :: "env \<Rightarrow> node \<Rightarrow> node \<Rightarrow> bool" where
  "lookup_fails e cell link =
     (\<not> css_plain (link_username link)
      \<and> isl (rawQuery e (avatar_selector (link_username link)) cell))"

definition structural :: "string \<Rightarrow> bool" where
  "structural txt = (test PINNED_POST txt \<or> test TRENDING txt \<or> test COMMUNITY_POST txt)"

definition processed_marker :: string where
  "processed_marker = ''data-xbot-processed''"

subsection \<open>Example inputs\<close>

definition env0 :: env where
  "env0 = \<lparr>dateNow = (\<lambda>k. 1000 + int k), resolveURL = (\<lambda>u. ''https://x.com'' @ u),
            backgroundImage = (\<lambda>n. ''none''), rawQuery = (\<lambda>sel n. Inl SyntaxError)\<rparr>"

definition avatar :: "string \<Rightarrow> node" where
  "avatar u =
     Element True ''div'' [(''data-testid'', ''UserAvatar-Container-'' @ u)]
       [Element True ''img'' [(''src'', ''/profile_images/1.jpg'')] []]"

definition user_link :: "string \<Rightarrow> string \<Rightarrow> node" where
  "user_link u shown = Element True ''a'' [(''href'', ''/'' @ u), (''role'', ''link'')] [Text shown]"

definition cell_element :: "node list \<Rightarrow> HTMLElement" where
  "cell_element kids =
     \<lparr>tagName = ''div'', attrs = [(''data-testid'', ''cellInnerDiv'')], children = kids,
      parents = []\<rparr>"

definition multi_kids :: "node list" where
  "multi_kids =
     [avatar ''al'', user_link ''al'' ''Al'', user_link ''al'' [],
      Text '' New post notifications for'']"

definition pinned_kids :: "node list" where
  "pinned_kids = [avatar ''al'', user_link ''al'' ''Al'', Text '' New pinned post in Trending in'']"

definition quote_kids :: "node list" where
  "quote_kids = [user_link (''a'' @ [CHR 0x22]) ''A'', Text '' liked'']"

definition bot_kids :: "node list" where
  "bot_kids = [avatar ''bot'', user_link ''bot'' ''Bot'', Text '' liked'']"

definition bot_profile :: "NotificationType ProfileData" where
  "bot_profile =
     \<lparr>username = ''bot'', followersCount = 0, followingCount = 0, displayName = ''Bot'',
      profileImageUrl = ''https://x.com/profile_images/1.jpg'', interactionTimestamp = 1000,
      interactionType = Like, notificationType = UserInteraction\<rparr>"

definition multi_first :: UserProfileData where
  "multi_first =
     \<lparr>username = ''al'', followersCount = 0, followingCount = 0, displayName = ''Al'',
      profileImageUrl = ''https://x.com/profile_images/1.jpg'', interactionTimestamp = 1000,
      interactionType = Follow, notificationType = multi_user\<rparr>"

definition multi_second :: UserProfileData where
  "multi_second =
     \<lparr>username = ''al'', followersCount = 0, followingCount = 0, displayName = ''al'',
      profileImageUrl = ''https://x.com/profile_images/1.jpg'', interactionTimestamp = 1001,
      interactionType = Follow, notificationType = multi_user\<rparr>"


definition ui_ok :: "HTMLElement \<Rightarrow> real \<Rightarrow> string list \<Rightarrow> error + HTMLElement" where
  "ui_ok el p rs = Inr el"

definition storage_ok :: collaborators where
  "storage_ok = \<lparr>addBotWarningUI = ui_ok, recordInteraction = (\<lambda>u t i p rs. Inr ())\<rparr>"


definition never_there :: "nat \<Rightarrow> node" where
  "never_there k = Element True ''html'' [] [Element True ''body'' [] []]"

definition there_after_3 :: "nat \<Rightarrow> node" where
  "there_after_3 k =
     (if k < 3 then never_there k
      else Element True ''html'' [] [Element True ''section'' [(''role'', ''region'')] []])"

definition spam12345 :: Profile where
  "spam12345 = \<lparr>username = ''spam12345'', followersCount = 0, followingCount = 0\<rparr>"

definition community_spam :: Profile where
  "community_spam =
     \<lparr>username = ''i/communities/spam12345'', followersCount = 0, followingCount = 0\<rparr>"

section \<open>Properties of the scoring\<close>

lemmas SCORES_defs =
  SCORES_noFollowers_def SCORES_randomAlphanumeric_def SCORES_manyNumbers_def
  SCORES_botKeywords_def SCORES_randomSuffix_def SCORES_numericSuffix_def
  SCORES_randomLetters_def

lemma add_if_nonneg: "0 \<le> w \<Longrightarrow> 0 \<le> score \<Longrightarrow> 0 \<le> add_if b w score"
  by (simp add: add_if_def)

lemma accumulated_nonneg: "0 \<le> accumulated p"
  unfolding accumulated_def Let_def
  by (intro add_if_nonneg) (simp_all add: SCORES_defs)

lemma calculate_bounds: "0 \<le> calculateBotProbability p \<and> calculateBotProbability p \<le> 0.9"
  using accumulated_nonneg [of p] by (simp add: calculateBotProbability_def)

lemma probability_cases:
  "probability (analyzeBotProbability p) =
     (if test community (username p) then 0 else calculateBotProbability p)"
  by (simp add: analyzeBotProbability_def Let_def)

lemma accumulated_matched: "accumulated p = sum_list (map weight (matched p))"
  by (simp add: accumulated_def matched_def scoring_conditions_def weight_def Let_def add_if_def)

lemma reasons_matched:
  "reasons (analyzeBotProbability p) =
     (if test community (username p) then [] else map reason (matched p))"
  by (simp add: analyzeBotProbability_def matched_def scoring_conditions_def reason_def
      Let_def push_if_def)

lemma distinct_reason_strings: "distinct (map reason (scoring_conditions p))"
  by (simp add: scoring_conditions_def reason_def Let_def)

subsection \<open>The lower-cased user name has no upper-case letter\<close>

lemma lower_char_not_upper: "\<not> in_range (CHR ''A'') (CHR ''Z'') (lower_char c)"
  by (auto simp: lower_char_def in_range_def code_def)

lemma adv_upper_nil:
  assumes "\<forall>c \<in> set s. \<not> in_range (CHR ''A'') (CHR ''Z'') c"
  shows "adv False (Cls [upper_az]) s = []"
  using assms by (cases s) (simp_all add: in_cls_def)

lemma reps_Suc_nil: "f s = [] \<Longrightarrow> reps f (Suc n) fuel s = []"
  by simp

lemma match_here_randomLetters:
  assumes "\<forall>c \<in> set s. \<not> in_range (CHR ''A'') (CHR ''Z'') c"
  shows "\<not> match_here randomLetters s"
proof -
  have "reps (adv False (Cls [upper_az])) (Suc (Suc 0)) (length s) s = []"
    using adv_upper_nil [OF assms] by (rule reps_Suc_nil)
  then show ?thesis
    by (simp add: match_here_def randomLetters_def rx_def numeral_2_eq_2)
qed

lemma search_randomLetters:
  "\<forall>c \<in> set s. \<not> in_range (CHR ''A'') (CHR ''Z'') c \<Longrightarrow> \<not> search randomLetters s"
proof (induction s)
  case Nil
  then show ?case using match_here_randomLetters [of "[]"] by simp
next
  case (Cons c s)
  then show ?case using match_here_randomLetters [of "c # s"] by simp
qed

lemma randomLetters_lowered: "\<not> test randomLetters (toLowerCase s)"
proof -
  have "\<forall>c \<in> set (toLowerCase s). \<not> in_range (CHR ''A'') (CHR ''Z'') c"
    by (simp add: toLowerCase_def lower_char_not_upper)
  then have "\<not> search randomLetters (toLowerCase s)"
    by (rule search_randomLetters)
  then show ?thesis
    by (simp add: test_def randomLetters_def rx_def)
qed

subsection \<open>The user name spam12345\<close>

lemma lower_spam: "toLowerCase ''spam12345'' = ''spam12345''"
  by code_simp

lemma spam_randomAlphanumeric: "test randomAlphanumeric ''spam12345''"
  by code_simp

lemma spam_manyNumbers: "test manyNumbers ''spam12345''"
  by code_simp

lemma spam_botKeywords: "test botKeywords ''spam12345''"
  by code_simp

lemma spam_randomSuffix: "test randomSuffix ''spam12345''"
  by code_simp

lemma spam_numericSuffix: "test numericSuffix ''spam12345''"
  by code_simp

lemma spam_randomLetters: "\<not> test randomLetters ''spam12345''"
  by code_simp

lemma spam_community: "\<not> test community ''spam12345''"
  by code_simp

lemmas spam_tests =
  lower_spam spam_randomAlphanumeric spam_manyNumbers spam_botKeywords spam_randomSuffix
  spam_numericSuffix spam_randomLetters spam_community

lemma community_spam_exempt: "test community ''i/communities/spam12345''"
  by code_simp

lemma community_spam_manyNumbers: "test manyNumbers (toLowerCase ''i/communities/spam12345'')"
  by code_simp

subsection \<open>The claims about the scoring\<close>

text \<open>
  C3. A profile whose user name matches the community pattern is scored with
  probability 0 and no reasons, whatever its counts and whatever else its name
  matches: the exemption is the first test of \<open>analyzeBotProbability\<close>.
\<close>

theorem community_exemption:
  assumes "test community (username p)"
  shows "analyzeBotProbability p = \<lparr>probability = 0, reasons = []\<rparr>"
  using assms by (simp add: analyzeBotProbability_def)

text \<open>
  The exempt name of the witness has no followers and matches the
  many-digits heuristic, and is still scored 0 with no reasons.
\<close>

theorem community_exemption_witness:
  "test community (username community_spam)
   \<and> followersCount community_spam = 0 \<and> followingCount community_spam = 0
   \<and> test manyNumbers (toLowerCase (username community_spam))
   \<and> analyzeBotProbability community_spam = \<lparr>probability = 0, reasons = []\<rparr>"
proof -
  have h: "test community (username community_spam)"
    by (simp add: community_spam_def community_spam_exempt)
  show ?thesis
    using h community_exemption [OF h]
    by (simp add: community_spam_def community_spam_manyNumbers)
qed

text \<open>
  C4. The probability of every profile lies between 0 and 0.9: it is 0 under
  the exemption and otherwise the accumulated score capped at 0.9, so it stays
  below 1.
\<close>

theorem probability_bounds:
  "0 \<le> probability (analyzeBotProbability p)
   \<and> probability (analyzeBotProbability p) \<le> 0.9
   \<and> probability (analyzeBotProbability p) < 1
   \<and> calculateBotProbability p = min (accumulated p) 0.9
   \<and> 0 \<le> calculateBotProbability p \<and> calculateBotProbability p \<le> 0.9"
  using calculate_bounds [of p]
  by (simp add: probability_cases calculateBotProbability_def)

text \<open>
  C5. Outside the exemption the reasons are the reason strings of the matched
  conditions, one each and in order, so there are as many reasons as matched
  conditions; the accumulated score is the sum of the weights of the same
  conditions, and the reason strings of different conditions differ. Under
  the exemption the probability is 0 and there are no reasons.
\<close>

theorem reasons_are_matched_conditions:
  "reasons (analyzeBotProbability p) =
     (if test community (username p) then [] else map reason (matched p))
   \<and> length (reasons (analyzeBotProbability p)) =
     (if test community (username p) then 0 else length (matched p))
   \<and> probability (analyzeBotProbability p) =
     (if test community (username p) then 0 else min (sum_list (map weight (matched p))) 0.9)
   \<and> accumulated p = sum_list (map weight (matched p))
   \<and> distinct (map reason (scoring_conditions p))"
  by (simp add: reasons_matched probability_cases calculateBotProbability_def
      accumulated_matched distinct_reason_strings)

text \<open>
  C6. For the user name spam12345 with no followers and no following the
  accumulated score is 1.5, the probability is the cap 0.9, and the reasons
  are, in evaluation order, the no-followers reason and those of the five
  matching heuristics, the four named strings among them.
\<close>

theorem spam12345_scenario:
  "analyzeBotProbability spam12345 =
     \<lparr>probability = 0.9,
      reasons = [''No followers or following'',
                 ''Random alphanumeric username'',
                 ''Username contains many numbers'',
                 ''Username contains bot-like keywords'',
                 ''Username has random number suffix'',
                 ''Username ends with many numbers'']\<rparr>
   \<and> accumulated spam12345 = 1.5"
  by (simp add: spam12345_def analyzeBotProbability_def calculateBotProbability_def
      accumulated_def Let_def add_if_def push_if_def spam_tests SCORES_defs)

text \<open>
  C10. The pattern of the random-letters heuristic asks for upper-case
  letters and is tested on the lower-cased user name, so it matches for no
  profile: its reason string is in no reasons sequence, and the accumulated
  score is the sum over the other matched conditions.
\<close>

theorem randomLetters_never_matches:
  "\<not> test randomLetters (toLowerCase (username p))
   \<and> ''Username has random letters and numbers'' \<notin> set (reasons (analyzeBotProbability p))
   \<and> accumulated p = sum_list (map weight (filter fst (butlast (scoring_conditions p))))"
proof -
  have no: "\<not> test randomLetters (toLowerCase (username p))"
    by (rule randomLetters_lowered)
  have "''Username has random letters and numbers'' \<notin> set (map reason (matched p))"
    using no by (simp add: matched_def scoring_conditions_def reason_def Let_def)
  then have r: "''Username has random letters and numbers''
      \<notin> set (reasons (analyzeBotProbability p))"
    by (simp add: reasons_matched)
  have "accumulated p = sum_list (map weight (filter fst (butlast (scoring_conditions p))))"
    using no
    by (simp add: accumulated_def scoring_conditions_def weight_def Let_def add_if_def)
  with no r show ?thesis by simp
qed


section \<open>Properties of the extraction\<close>

subsection \<open>Records built from the links\<close>

lemma build_user_clock:
  "build_user e cell txt k link =
     map_sum id (map_option (\<lambda>u. u\<lparr>interactionTimestamp := dateNow e k\<rparr>))
       (build_user e cell txt 0 link)"
  by (simp add: build_user_def Let_def split: option.splits sum.splits)

lemma build_user_None: "build_user e cell txt k link = Inr None \<Longrightarrow> \<not> builds e cell txt link"
  by (subst (asm) build_user_clock) (auto simp: builds_def split: sum.splits option.splits)

lemma build_user_Some:
  assumes "build_user e cell txt k link = Inr (Some u)"
  shows "builds e cell txt link" and "username u = link_username link"
    and "interactionType u = determineInteractionType txt"
    and "notificationType u = (if test MULTI_USER txt then multi_user else user_interaction)"
proof -
  show "builds e cell txt link"
    using assms
    by (subst (asm) build_user_clock) (auto simp: builds_def split: sum.splits option.splits)
  show "username u = link_username link"
    using assms
    by (auto simp: build_user_def link_username_def Let_def
        split: option.splits sum.splits if_splits)
  show "interactionType u = determineInteractionType txt"
    using assms
    by (auto simp: build_user_def Let_def split: option.splits sum.splits if_splits)
  show "notificationType u = (if test MULTI_USER txt then multi_user else user_interaction)"
    using assms
    by (auto simp: build_user_def Let_def split: option.splits sum.splits if_splits)
qed

lemma build_users_usernames:
  "build_users e cell txt k links = Inr us \<Longrightarrow>
     map username us = map link_username (filter (builds e cell txt) links)"
proof (induction links arbitrary: k us)
  case Nil
  then show ?case by simp
next
  case (Cons link links)
  show ?case
  proof (cases "build_user e cell txt k link")
    case (Inl err)
    with Cons.prems show ?thesis by simp
  next
    case (Inr r)
    show ?thesis
    proof (cases r)
      case None
      with Inr Cons.prems have "build_users e cell txt k links = Inr us" by simp
      moreover have "\<not> builds e cell txt link"
        using Inr None by (simp add: build_user_None)
      ultimately show ?thesis using Cons.IH by simp
    next
      case (Some u)
      with Inr Cons.prems obtain others where
        others: "build_users e cell txt (Suc k) links = Inr others" and us: "us = u # others"
        by (auto split: sum.splits)
      have built: "build_user e cell txt k link = Inr (Some u)"
        using Inr Some by simp
      have "builds e cell txt link" "username u = link_username link"
        using build_user_Some [OF built] by simp_all
      then show ?thesis using Cons.IH [OF others] us by simp
    qed
  qed
qed

lemma build_users_each:
  "build_users e cell txt k links = Inr us \<Longrightarrow> u \<in> set us \<Longrightarrow>
     interactionType u = determineInteractionType txt
     \<and> notificationType u = (if test MULTI_USER txt then multi_user else user_interaction)"
proof (induction links arbitrary: k us)
  case Nil
  then show ?case by simp
next
  case (Cons link links)
  show ?case
  proof (cases "build_user e cell txt k link")
    case (Inl err)
    with Cons.prems show ?thesis by simp
  next
    case (Inr r)
    show ?thesis
    proof (cases r)
      case None
      with Inr Cons.prems have "build_users e cell txt k links = Inr us" by simp
      then show ?thesis using Cons.IH Cons.prems(2) by blast
    next
      case (Some v)
      with Inr Cons.prems obtain others where
        others: "build_users e cell txt (Suc k) links = Inr others" and us: "us = v # others"
        by (auto split: sum.splits)
      show ?thesis
      proof (cases "u = v")
        case True
        moreover have "build_user e cell txt k link = Inr (Some v)"
          using Inr Some by simp
        ultimately show ?thesis using build_user_Some(3,4) by blast
      next
        case False
        with us Cons.prems(2) have "u \<in> set others" by simp
        then show ?thesis using Cons.IH [OF others] by blast
      qed
    qed
  qed
qed

lemma css_plain_Nil: "css_plain []"
  by (simp add: css_plain_def)

lemma build_user_throws:
  "(\<exists>err. build_user e cell txt k link = Inl err) = lookup_fails e cell link"
  by (auto simp: build_user_def lookup_fails_def link_username_def avatar_container_def Let_def
      css_plain_Nil isl_def split: option.splits sum.splits if_splits)

lemma build_user_builds:
  "builds e cell txt link \<Longrightarrow> \<exists>u. build_user e cell txt k link = Inr (Some u)"
  by (subst build_user_clock) (auto simp: builds_def split: sum.splits option.splits)

lemma build_user_not_builds:
  "\<not> builds e cell txt link \<Longrightarrow> \<not> lookup_fails e cell link \<Longrightarrow>
     build_user e cell txt k link = Inr None"
  using build_user_throws [of e cell "txt" 0 link, symmetric]
  by (subst build_user_clock) (auto simp: builds_def split: sum.splits option.splits)

text \<open>
  When no lookup throws, the records are what \<open>build_user\<close> returns for the
  links that build, in link order, the \<open>i\<close>-th of them with the \<open>i\<close>-th
  reading of the clock; when one throws, so does the whole call.
\<close>

lemma build_users_records:
  "\<not> list_ex (lookup_fails e cell) links \<Longrightarrow>
     \<exists>us. build_users e cell txt k links = Inr us
       \<and> map (Inr \<circ> Some) us =
           map (\<lambda>(i, link). build_user e cell txt i link)
             (enumerate k (filter (builds e cell txt) links))"
proof (induction links arbitrary: k)
  case Nil
  then show ?case by simp
next
  case (Cons link links)
  then have nf: "\<not> lookup_fails e cell link" and rest: "\<not> list_ex (lookup_fails e cell) links"
    by simp_all
  show ?case
  proof (cases "builds e cell txt link")
    case True
    then obtain u where u: "build_user e cell txt k link = Inr (Some u)"
      using build_user_builds by blast
    from Cons.IH [OF rest, of "Suc k"] obtain us where
      "build_users e cell txt (Suc k) links = Inr us"
      "map (Inr \<circ> Some) us =
           map (\<lambda>(i, link). build_user e cell txt i link)
             (enumerate (Suc k) (filter (builds e cell txt) links))"
      by blast
    then show ?thesis using True u by (simp add: comp_def)
  next
    case False
    then have "build_user e cell txt k link = Inr None"
      using nf by (rule build_user_not_builds)
    then show ?thesis using False Cons.IH [OF rest, of k] by (simp add: comp_def)
  qed
qed

lemma build_users_throws:
  "list_ex (lookup_fails e cell) links \<Longrightarrow> \<exists>err. build_users e cell txt k links = Inl err"
proof (induction links arbitrary: k)
  case Nil
  then show ?case by simp
next
  case (Cons link links)
  show ?case
  proof (cases "build_user e cell txt k link")
    case (Inl err)
    then show ?thesis by simp
  next
    case (Inr r)
    then have "\<not> lookup_fails e cell link"
      using build_user_throws [of e cell "txt" k link] by auto
    with Cons.prems have rest: "list_ex (lookup_fails e cell) links" by simp
    show ?thesis
    proof (cases r)
      case None
      then show ?thesis using Inr Cons.IH [OF rest, of k] by simp
    next
      case (Some u)
      then show ?thesis using Inr Cons.IH [OF rest, of "Suc k"] by auto
    qed
  qed
qed

lemma builds_iff:
  "builds e cell txt link =
     (link_username link \<noteq> []
      \<and> (\<exists>container url. avatar_container e cell (link_username link) = Inr (Some container)
            \<and> extractProfileImage e container = Some url \<and> url \<noteq> []))"
  by (auto simp: builds_def build_user_def link_username_def Let_def
      split: option.splits sum.splits if_splits)

lemma interaction_like: "(determineInteractionType t = Like) = test LIKE t"
  by (simp add: determineInteractionType_def)

subsection \<open>Structural kinds\<close>

lemma parse_structural:
  assumes "structural (toLowerCase (textContent cell))"
  shows "parseNotification e cell =
     Inr (Some \<lparr>ntype = (if test PINNED_POST (toLowerCase (textContent cell)) then PinnedPost
                         else if test TRENDING (toLowerCase (textContent cell)) then Trending
                         else CommunityPost),
               ntext = toLowerCase (textContent cell), users = None\<rparr>)"
  using assms by (auto simp: parseNotification_def structural_def Let_def)

lemma parse_not_structural:
  assumes "\<not> structural (toLowerCase (textContent cell))"
  shows "parseNotification e cell =
     (case build_users e cell (toLowerCase (textContent cell)) 0 (userLinks cell) of
        Inl err \<Rightarrow> Inl err
      | Inr us \<Rightarrow>
          if us = [] then Inr None
          else Inr (Some \<lparr>ntype = (if test MULTI_USER (toLowerCase (textContent cell))
                                     then MultiUser else UserInteraction),
                          ntext = toLowerCase (textContent cell), users = Some us\<rparr>))"
  using assms by (auto simp: parseNotification_def structural_def Let_def)

lemma extract_structural:
  assumes "structural (toLowerCase (textContent cell))" and "closest element CELL = Some cell"
  shows "extractProfileData e element = None"
  using assms by (simp add: extractProfileData_def parse_structural)

subsection \<open>The example cells\<close>

lemma as_node_cell:
  "as_node (cell_element kids) = Element True ''div'' [(''data-testid'', ''cellInnerDiv'')] kids"
  by (simp add: as_node_def cell_element_def)

lemma closest_cell: "closest (cell_element kids) CELL = Some (as_node (cell_element kids))"
  by (simp add: closest_def as_node_def cell_element_def CELL_def testid_def)

lemma no_warning_class: "\<not> classList_contains (cell_element kids) ''xbd-warning''"
  by (simp add: classList_contains_def cell_element_def)

lemma html_cell: "instanceof_HTMLElement (as_node (cell_element kids))"
  by (simp add: as_node_cell)

lemma dateNow_env0: "dateNow env0 k = 1000 + int k"
  by (simp add: env0_def)

lemma image_avatar: "extractProfileImage env0 (avatar u) = Some ''https://x.com/profile_images/1.jpg''"
  by code_simp

lemma trim_Al: "trim ''Al'' = ''Al''"
  by code_simp

lemma trim_Nil: "trim [] = []"
  by code_simp

lemma trim_Bot: "trim ''Bot'' = ''Bot''"
  by code_simp

lemma multi_text:
  "toLowerCase (textContent (as_node (cell_element multi_kids))) = ''al new post notifications for''"
  by code_simp

lemma multi_links:
  "userLinks (as_node (cell_element multi_kids)) = [user_link ''al'' ''Al'', user_link ''al'' []]"
  by code_simp

lemma multi_not_pinned: "\<not> test PINNED_POST ''al new post notifications for''"
  by code_simp

lemma multi_not_trending: "\<not> test TRENDING ''al new post notifications for''"
  by code_simp

lemma multi_not_community: "\<not> test COMMUNITY_POST ''al new post notifications for''"
  by code_simp

lemma multi_is_multi: "test MULTI_USER ''al new post notifications for''"
  by code_simp

lemma multi_not_like: "\<not> test LIKE ''al new post notifications for''"
  by code_simp

lemma multi_follow: "determineInteractionType ''al new post notifications for'' = Follow"
  by code_simp

lemma multi_avatar:
  "avatar_container env0 (as_node (cell_element multi_kids)) ''al'' = Inr (Some (avatar ''al''))"
  by code_simp

lemma multi_user1:
  "build_user env0 (as_node (cell_element multi_kids)) ''al new post notifications for'' k
     (user_link ''al'' ''Al'')
   = Inr (Some (multi_first\<lparr>interactionTimestamp := 1000 + int k\<rparr>))"
  by (simp add: build_user_def user_link_def slice1_def multi_avatar image_avatar trim_Al
      multi_is_multi multi_follow dateNow_env0 Let_def multi_first_def)

lemma multi_user2:
  "build_user env0 (as_node (cell_element multi_kids)) ''al new post notifications for'' k
     (user_link ''al'' [])
   = Inr (Some (multi_second\<lparr>interactionTimestamp := 1000 + int k\<rparr>))"
  by (simp add: build_user_def user_link_def slice1_def multi_avatar image_avatar trim_Nil
      multi_is_multi multi_follow dateNow_env0 Let_def multi_second_def)

lemma multi_parse:
  "parseNotification env0 (as_node (cell_element multi_kids)) =
     Inr (Some \<lparr>ntype = MultiUser, ntext = ''al new post notifications for'',
                users = Some [multi_first, multi_second]\<rparr>)"
  by (simp add: parseNotification_def multi_text multi_links multi_not_pinned multi_not_trending
      multi_not_community multi_is_multi multi_user1 multi_user2 multi_first_def multi_second_def)

lemma multi_builds:
  "map (builds env0 (as_node (cell_element multi_kids)) ''al new post notifications for'')
     (userLinks (as_node (cell_element multi_kids))) = [True, True]"
  by (simp add: builds_def multi_links multi_user1 multi_user2)

lemma multi_extract:
  "extractProfileData env0 (cell_element multi_kids) = Some (to_ProfileData multi_first)"
  by (simp add: extractProfileData_def no_warning_class closest_cell html_cell multi_parse)

lemma multi_no_failure:
  "\<not> list_ex (lookup_fails env0 (as_node (cell_element multi_kids)))
       (userLinks (as_node (cell_element multi_kids)))"
  by code_simp

lemma quote_not_structural:
  "\<not> structural (toLowerCase (textContent (as_node (cell_element quote_kids))))"
  by code_simp

lemma quote_failure:
  "list_ex (lookup_fails env0 (as_node (cell_element quote_kids)))
       (userLinks (as_node (cell_element quote_kids)))"
  by code_simp

lemma pinned_text:
  "toLowerCase (textContent (as_node (cell_element pinned_kids)))
     = ''al new pinned post in trending in''"
  by code_simp

lemma pinned_links: "userLinks (as_node (cell_element pinned_kids)) = [user_link ''al'' ''Al'']"
  by code_simp

lemma pinned_is_pinned: "test PINNED_POST ''al new pinned post in trending in''"
  by code_simp

lemma pinned_is_trending: "test TRENDING ''al new pinned post in trending in''"
  by code_simp

lemma bot_text: "toLowerCase (textContent (as_node (cell_element bot_kids))) = ''bot liked''"
  by code_simp

lemma bot_links: "userLinks (as_node (cell_element bot_kids)) = [user_link ''bot'' ''Bot'']"
  by code_simp

lemma bot_not_pinned: "\<not> test PINNED_POST ''bot liked''"
  by code_simp

lemma bot_not_trending: "\<not> test TRENDING ''bot liked''"
  by code_simp

lemma bot_not_community: "\<not> test COMMUNITY_POST ''bot liked''"
  by code_simp

lemma bot_not_multi: "\<not> test MULTI_USER ''bot liked''"
  by code_simp

lemma bot_like: "determineInteractionType ''bot liked'' = Like"
  by code_simp

lemma bot_avatar:
  "avatar_container env0 (as_node (cell_element bot_kids)) ''bot'' = Inr (Some (avatar ''bot''))"
  by code_simp

lemma bot_user:
  "build_user env0 (as_node (cell_element bot_kids)) ''bot liked'' k (user_link ''bot'' ''Bot'')
   = Inr (Some \<lparr>username = ''bot'', followersCount = 0, followingCount = 0, displayName = ''Bot'',
        profileImageUrl = ''https://x.com/profile_images/1.jpg'', interactionTimestamp = 1000 + int k,
        interactionType = Like, notificationType = user_interaction\<rparr>)"
  by (simp add: build_user_def user_link_def slice1_def bot_avatar image_avatar trim_Bot
      bot_not_multi bot_like dateNow_env0 Let_def)

lemma bot_parse:
  "parseNotification env0 (as_node (cell_element bot_kids)) =
     Inr (Some \<lparr>ntype = UserInteraction, ntext = ''bot liked'',
       users = Some
        [\<lparr>username = ''bot'', followersCount = 0, followingCount = 0, displayName = ''Bot'',
          profileImageUrl = ''https://x.com/profile_images/1.jpg'', interactionTimestamp = 1000,
          interactionType = Like, notificationType = user_interaction\<rparr>]\<rparr>)"
  by (simp add: parseNotification_def bot_text bot_links bot_not_pinned bot_not_trending
      bot_not_community bot_not_multi bot_user)

lemma bot_extract: "extractProfileData env0 (cell_element bot_kids) = Some bot_profile"
  by (simp add: extractProfileData_def no_warning_class closest_cell html_cell bot_parse
      to_ProfileData_def bot_profile_def)

lemma bot_lower: "toLowerCase ''bot'' = ''bot''"
  by code_simp

lemma bot_randomAlphanumeric: "\<not> test randomAlphanumeric ''bot''"
  by code_simp

lemma bot_manyNumbers: "\<not> test manyNumbers ''bot''"
  by code_simp

lemma bot_botKeywords: "test botKeywords ''bot''"
  by code_simp

lemma bot_randomSuffix: "\<not> test randomSuffix ''bot''"
  by code_simp

lemma bot_numericSuffix: "\<not> test numericSuffix ''bot''"
  by code_simp

lemma bot_randomLetters: "\<not> test randomLetters ''bot''"
  by code_simp

lemma bot_community: "\<not> test community ''bot''"
  by code_simp

lemma bot_analysis:
  "analyzeBotProbability bot_profile =
     \<lparr>probability = 0.6,
      reasons = [''No followers or following'', ''Username contains bot-like keywords'']\<rparr>"
  by (simp add: bot_profile_def analyzeBotProbability_def calculateBotProbability_def
      accumulated_def Let_def add_if_def push_if_def bot_lower bot_randomAlphanumeric
      bot_manyNumbers bot_botKeywords bot_randomSuffix bot_numericSuffix bot_randomLetters
      bot_community SCORES_noFollowers_def SCORES_botKeywords_def)

lemma bot_fields:
  "username bot_profile = ''bot''" "interactionTimestamp bot_profile = 1000"
  "interactionType bot_profile = Like"
  by (simp_all add: bot_profile_def)

lemma bot_unmarked: "\<not> hasAttribute (cell_element bot_kids) ''data-xbot-processed''"
  by (simp add: hasAttribute_def cell_element_def)




subsection \<open>The claims about the extraction\<close>

text \<open>
  C7. When the lower-cased text of a cell matches a structural pattern,
  \<open>parseNotification\<close> returns the structural kind of the first pattern that
  matches, in the order pinned, trending, community, with no user records,
  whatever links the cell holds; \<open>extractProfileData\<close> then returns no
  profile for any element whose cell it is.
\<close>

theorem structural_short_circuit:
  assumes "structural (toLowerCase (textContent cell))"
  shows "parseNotification e cell =
     Inr (Some \<lparr>ntype = (if test PINNED_POST (toLowerCase (textContent cell)) then PinnedPost
                         else if test TRENDING (toLowerCase (textContent cell)) then Trending
                         else CommunityPost),
               ntext = toLowerCase (textContent cell), users = None\<rparr>)
     \<and> (\<forall>element. closest element CELL = Some cell \<longrightarrow> extractProfileData e element = None)"
  using assms by (simp add: parse_structural extract_structural)

text \<open>
  The cell of the witness holds a user link with its avatar, and its text
  matches the pinned and the trending pattern: the kind is the pinned one.
\<close>

theorem structural_short_circuit_witness:
  "structural (toLowerCase (textContent (as_node (cell_element pinned_kids))))
   \<and> test TRENDING (toLowerCase (textContent (as_node (cell_element pinned_kids))))
   \<and> userLinks (as_node (cell_element pinned_kids)) = [user_link ''al'' ''Al'']
   \<and> parseNotification env0 (as_node (cell_element pinned_kids)) =
       Inr (Some \<lparr>ntype = PinnedPost, ntext = ''al new pinned post in trending in'',
                  users = None\<rparr>)
   \<and> extractProfileData env0 (cell_element pinned_kids) = None"
proof -
  have h: "structural (toLowerCase (textContent (as_node (cell_element pinned_kids))))"
    by (simp add: structural_def pinned_text pinned_is_pinned)
  show ?thesis
    using h structural_short_circuit [OF h, of env0] closest_cell [of pinned_kids]
    by (simp add: pinned_text pinned_is_pinned pinned_is_trending pinned_links)
qed

text \<open>
  C1, as the claim states it, fails: the cell below matches the multi-user
  pattern and has exactly two resolvable user links, and \<open>parseNotification\<close>
  returns the kind MultiUser with two records, but their interaction type is
  Follow, since the text holds no "liked"; and \<open>extractProfileData\<close>
  returns the first of the two records only.
\<close>

theorem multi_user_not_like:
  "test MULTI_USER (toLowerCase (textContent (as_node (cell_element multi_kids))))
   \<and> map (builds env0 (as_node (cell_element multi_kids))
            (toLowerCase (textContent (as_node (cell_element multi_kids)))))
       (userLinks (as_node (cell_element multi_kids))) = [True, True]
   \<and> parseNotification env0 (as_node (cell_element multi_kids)) =
       Inr (Some \<lparr>ntype = MultiUser, ntext = ''al new post notifications for'',
                  users = Some [multi_first, multi_second]\<rparr>)
   \<and> map interactionType [multi_first, multi_second] = [Follow, Follow]
   \<and> Follow \<noteq> Like
   \<and> extractProfileData env0 (cell_element multi_kids) = Some (to_ProfileData multi_first)"
  using multi_builds
  by (simp add: multi_text multi_is_multi multi_parse multi_extract multi_first_def
      multi_second_def)

text \<open>
  C1, amended. Let no structural pattern match the text of a cell. When no
  lookup of an avatar container throws, \<open>parseNotification\<close> builds one
  record per link that builds (a link builds when its user name is not empty,
  its avatar container is found and an image resolves in it), in link order
  and with repeated user names kept; it returns no notification when there is
  no such record, and otherwise the kind MultiUser if the text matches the
  multi-user pattern, UserInteraction if not, with all the records. Every
  record has the interaction type derived from the text, which is Like
  exactly when the text matches "liked". \<open>extractProfileData\<close> returns the
  first of the records. When a lookup throws, \<open>parseNotification\<close> throws and
  \<open>extractProfileData\<close> returns no profile.
\<close>

theorem parse_user_records:
  assumes "\<not> structural (toLowerCase (textContent cell))"
  shows "(if list_ex (lookup_fails e cell) (userLinks cell)
     then (\<exists>err. parseNotification e cell = Inl err)
          \<and> (\<forall>element. closest element CELL = Some cell \<longrightarrow> extractProfileData e element = None)
     else (\<exists>us. map (Inr \<circ> Some) us =
               map (\<lambda>(i, link). build_user e cell (toLowerCase (textContent cell)) i link)
                 (enumerate 0
                    (filter (builds e cell (toLowerCase (textContent cell))) (userLinks cell)))
           \<and> length us =
               length (filter (builds e cell (toLowerCase (textContent cell))) (userLinks cell))
           \<and> map username us =
               map link_username
                 (filter (builds e cell (toLowerCase (textContent cell))) (userLinks cell))
           \<and> (\<forall>u \<in> set us.
                 interactionType u = determineInteractionType (toLowerCase (textContent cell))
                 \<and> (interactionType u = Like) = test LIKE (toLowerCase (textContent cell)))
           \<and> parseNotification e cell =
               (if us = [] then Inr None
                else Inr (Some \<lparr>ntype = (if test MULTI_USER (toLowerCase (textContent cell))
                                          then MultiUser else UserInteraction),
                                ntext = toLowerCase (textContent cell), users = Some us\<rparr>))
           \<and> (\<forall>element. \<not> classList_contains element ''xbd-warning''
                 \<longrightarrow> closest element CELL = Some cell \<longrightarrow> instanceof_HTMLElement cell
                 \<longrightarrow> extractProfileData e element =
                       (if us = [] then None else Some (to_ProfileData (hd us))))))
     \<and> (\<forall>link. builds e cell (toLowerCase (textContent cell)) link =
           (link_username link \<noteq> []
            \<and> (\<exists>container url.
                  avatar_container e cell (link_username link) = Inr (Some container)
                  \<and> extractProfileImage e container = Some url \<and> url \<noteq> [])))"
    (is "?records \<and> ?builds")
proof
  show ?builds by (simp add: builds_iff)
  show ?records
  proof (cases "list_ex (lookup_fails e cell) (userLinks cell)")
    case True
    let ?t = "toLowerCase (textContent cell)"
    from build_users_throws [OF True] obtain err where
      "build_users e cell ?t 0 (userLinks cell) = Inl err"
      by blast
    then have p: "parseNotification e cell = Inl err"
      using assms by (simp add: parse_not_structural)
    then have "extractProfileData e element = None" if "closest element CELL = Some cell" for element
      using that by (simp add: extractProfileData_def)
    with p True show ?thesis by auto
  next
    case False
    let ?t = "toLowerCase (textContent cell)"
    from build_users_records [OF False] obtain us where
      bu: "build_users e cell ?t 0 (userLinks cell) = Inr us"
      and recs: "map (Inr \<circ> Some) us =
                 map (\<lambda>(i, link). build_user e cell ?t i link)
                   (enumerate 0 (filter (builds e cell ?t) (userLinks cell)))"
      by blast
    have p: "parseNotification e cell =
         (if us = [] then Inr None
          else Inr (Some \<lparr>ntype = (if test MULTI_USER ?t then MultiUser else UserInteraction),
                          ntext = ?t, users = Some us\<rparr>))"
      using assms bu by (simp add: parse_not_structural)
    have names: "map username us = map link_username (filter (builds e cell ?t) (userLinks cell))"
      using bu by (rule build_users_usernames)
    have count: "length us = length (filter (builds e cell ?t) (userLinks cell))"
      using arg_cong [OF names, of length] by simp
    have each: "\<forall>u \<in> set us. interactionType u = determineInteractionType ?t
                   \<and> (interactionType u = Like) = test LIKE ?t"
      using build_users_each [OF bu] by (simp add: interaction_like)
    have first: "extractProfileData e element =
        (if us = [] then None else Some (to_ProfileData (hd us)))"
      if "\<not> classList_contains element ''xbd-warning''" "closest element CELL = Some cell"
         "instanceof_HTMLElement cell" for element
      using that p
      by (cases us) (auto simp: extractProfileData_def)
    show ?thesis
      using False recs count names each p first by auto
  qed
qed

text \<open>
  The first cell of the witness has two links to the same user name: both
  build, and the two records carry the same user name. The link of the second
  cell has a quotation mark in its user name, and the browser of the example
  refuses the selector.
\<close>

theorem parse_user_records_witness:
  "\<not> structural (toLowerCase (textContent (as_node (cell_element multi_kids))))
   \<and> test MULTI_USER (toLowerCase (textContent (as_node (cell_element multi_kids))))
   \<and> \<not> test LIKE (toLowerCase (textContent (as_node (cell_element multi_kids))))
   \<and> parseNotification env0 (as_node (cell_element multi_kids)) =
       Inr (Some \<lparr>ntype = MultiUser, ntext = ''al new post notifications for'',
                  users = Some [multi_first, multi_second]\<rparr>)
   \<and> map username [multi_first, multi_second] = [''al'', ''al'']
   \<and> map interactionType [multi_first, multi_second] = [Follow, Follow]
   \<and> extractProfileData env0 (cell_element multi_kids) = Some (to_ProfileData multi_first)
   \<and> \<not> structural (toLowerCase (textContent (as_node (cell_element quote_kids))))
   \<and> (\<exists>err. parseNotification env0 (as_node (cell_element quote_kids)) = Inl err)
   \<and> extractProfileData env0 (cell_element quote_kids) = None"
proof -
  let ?cell = "as_node (cell_element multi_kids)"
  let ?t = "''al new post notifications for''"
  have h1: "\<not> structural (toLowerCase (textContent ?cell))"
    by (simp add: structural_def multi_text multi_not_pinned multi_not_trending
        multi_not_community)
  have built: "map (\<lambda>(i, link). build_user env0 ?cell ?t i link)
      (enumerate 0 (filter (builds env0 ?cell ?t) (userLinks ?cell)))
      = [Inr (Some multi_first), Inr (Some multi_second)]"
    using multi_builds
    by (simp add: multi_links multi_user1 multi_user2 multi_first_def multi_second_def)
  from parse_user_records [OF h1, of env0] multi_no_failure obtain us where
    recs: "map (Inr \<circ> Some) us =
               map (\<lambda>(i, link). build_user env0 ?cell (toLowerCase (textContent ?cell)) i link)
                 (enumerate 0
                    (filter (builds env0 ?cell (toLowerCase (textContent ?cell))) (userLinks ?cell)))"
    and p: "parseNotification env0 ?cell =
               (if us = [] then Inr None
                else Inr (Some \<lparr>ntype = (if test MULTI_USER (toLowerCase (textContent ?cell))
                                          then MultiUser else UserInteraction),
                                ntext = toLowerCase (textContent ?cell), users = Some us\<rparr>))"
    and ex: "\<forall>element. \<not> classList_contains element ''xbd-warning''
                 \<longrightarrow> closest element CELL = Some ?cell \<longrightarrow> instanceof_HTMLElement ?cell
                 \<longrightarrow> extractProfileData env0 element =
                       (if us = [] then None else Some (to_ProfileData (hd us)))"
    by auto
  from recs built have us: "us = [multi_first, multi_second]"
    by (auto simp: multi_text map_eq_Cons_conv)
  have e1: "extractProfileData env0 (cell_element multi_kids) = Some (to_ProfileData multi_first)"
    using ex no_warning_class [of multi_kids] closest_cell [of multi_kids]
      html_cell [of multi_kids] us
    by auto
  let ?q = "as_node (cell_element quote_kids)"
  from parse_user_records [OF quote_not_structural, of env0] quote_failure
  have q: "(\<exists>err. parseNotification env0 ?q = Inl err)
      \<and> (\<forall>element. closest element CELL = Some ?q \<longrightarrow> extractProfileData env0 element = None)"
    by simp
  then have e2: "extractProfileData env0 (cell_element quote_kids) = None"
    using closest_cell [of quote_kids] by blast
  show ?thesis
    using h1 p us e1 q e2
    by (simp add: multi_text multi_is_multi multi_not_like multi_first_def multi_second_def
        quote_not_structural)
qed

section \<open>Properties of the detector\<close>

lemma set_attr_has: "name \<in> fst ` set (set_attr name v as)"
  by (induction as) (force split: if_splits)+

lemma hasAttribute_setAttribute: "hasAttribute (setAttribute el name v) name"
  by (simp add: hasAttribute_def setAttribute_def set_attr_has)


lemma bot_handled:
  "processNotification env0 storage_ok \<lparr>notification = cell_element bot_kids, calls = []\<rparr> =
     (None,
      \<lparr>notification = setAttribute (cell_element bot_kids) ''data-xbot-processed'' ''true'',
       calls = [Call_extractProfileData, Call_analyzeBotProbability ''bot'',
                Call_addBotWarningUI 0.6
                  [''No followers or following'', ''Username contains bot-like keywords''],
                Call_recordInteraction ''bot'' 1000 Like 0.6
                  [''No followers or following'', ''Username contains bot-like keywords''],
                Call_setAttribute ''data-xbot-processed'' ''true'']\<rparr>)"
  by (simp add: processNotification_def bot_unmarked called_def bot_extract bot_analysis
      storage_ok_def ui_ok_def Let_def bot_fields mark_processed_def)


subsection \<open>The claims about processNotification\<close>




text \<open>
  C8. On a notification that carries the marker \<open>processNotification\<close>
  returns at once: the element and the list of calls are unchanged, so there
  is no extraction, no scoring, no warning and no persisted interaction.
\<close>

theorem already_processed_no_effects:
  assumes "hasAttribute (notification s) ''data-xbot-processed''"
  shows "processNotification e co s = (None, s)"
  using assms by (simp add: processNotification_def)

text \<open>
  The witness runs the detector twice on a cell that triggers a warning: the
  first run makes five calls and sets the marker, the second changes nothing.
\<close>

theorem already_processed_no_effects_witness:
  "hasAttribute (notification (snd (processNotification env0 storage_ok
       \<lparr>notification = cell_element bot_kids, calls = []\<rparr>))) ''data-xbot-processed''
   \<and> length (calls (snd (processNotification env0 storage_ok
       \<lparr>notification = cell_element bot_kids, calls = []\<rparr>))) = 5
   \<and> processNotification env0 storage_ok
        (snd (processNotification env0 storage_ok
           \<lparr>notification = cell_element bot_kids, calls = []\<rparr>))
      = (None, snd (processNotification env0 storage_ok
           \<lparr>notification = cell_element bot_kids, calls = []\<rparr>))"
proof -
  have h: "hasAttribute (notification (snd (processNotification env0 storage_ok
       \<lparr>notification = cell_element bot_kids, calls = []\<rparr>))) ''data-xbot-processed''"
    by (simp add: bot_handled hasAttribute_setAttribute)
  show ?thesis
    using h already_processed_no_effects [OF h, of env0 storage_ok]
    by (simp add: bot_handled)
qed

subsection \<open>The wait for the notifications feed\<close>

lemma wait_unfold:
  "waitForNotificationsFeed page s =
     (case first_feed (page (delays s)) feed_selectors of
        Some feed \<Rightarrow> (Some feed, s)
      | None \<Rightarrow>
          if retryCount s \<ge> maxRetries then (None, s)
          else waitForNotificationsFeed page
                 (s\<lparr>retryCount := retryCount s + 1, delays := delays s + 1\<rparr>))"
  by (rule waitForNotificationsFeed.simps)

lemma wait_found:
  "first_feed (page (delays s)) feed_selectors = Some feed \<Longrightarrow>
     waitForNotificationsFeed page s = (Some feed, s)"
  by (subst wait_unfold) simp

lemma wait_stop:
  "first_feed (page (delays s)) feed_selectors = None \<Longrightarrow> maxRetries \<le> retryCount s \<Longrightarrow>
     waitForNotificationsFeed page s = (None, s)"
  by (subst wait_unfold) simp

lemma wait_retry:
  "first_feed (page (delays s)) feed_selectors = None \<Longrightarrow> \<not> maxRetries \<le> retryCount s \<Longrightarrow>
     waitForNotificationsFeed page s =
       waitForNotificationsFeed page (s\<lparr>retryCount := retryCount s + 1, delays := delays s + 1\<rparr>)"
  by (subst wait_unfold) simp

lemma wait_delays:
  "delays (snd (waitForNotificationsFeed page s)) - delays s \<le> maxRetries - retryCount s
   \<and> delays s \<le> delays (snd (waitForNotificationsFeed page s))
   \<and> delays (snd (waitForNotificationsFeed page s)) - delays s
       = retryCount (snd (waitForNotificationsFeed page s)) - retryCount s
   \<and> retryCount s \<le> retryCount (snd (waitForNotificationsFeed page s))"
proof (induction page s rule: waitForNotificationsFeed.induct)
  case (1 page s)
  show ?case
  proof (cases "first_feed (page (delays s)) feed_selectors")
    case (Some f)
    then show ?thesis by (simp add: wait_found)
  next
    case None
    show ?thesis
    proof (cases "maxRetries \<le> retryCount s")
      case True
      with None show ?thesis by (simp add: wait_stop)
    next
      case False
      have "waitForNotificationsFeed page s =
          waitForNotificationsFeed page
            (s\<lparr>retryCount := retryCount s + 1, delays := delays s + 1\<rparr>)"
        using None False by (rule wait_retry)
      moreover note 1 [OF None False]
      ultimately show ?thesis using False by auto
    qed
  qed
qed

lemma wait_None:
  "fst (waitForNotificationsFeed page s) = None \<Longrightarrow>
     maxRetries \<le> retryCount (snd (waitForNotificationsFeed page s))
     \<and> (retryCount s \<le> maxRetries \<longrightarrow>
          retryCount (snd (waitForNotificationsFeed page s)) = maxRetries)"
proof (induction page s rule: waitForNotificationsFeed.induct)
  case (1 page s)
  show ?case
  proof (cases "first_feed (page (delays s)) feed_selectors")
    case (Some f)
    with 1(2) show ?thesis by (simp add: wait_found)
  next
    case None
    show ?thesis
    proof (cases "maxRetries \<le> retryCount s")
      case True
      with None show ?thesis by (simp add: wait_stop)
    next
      case False
      have eq: "waitForNotificationsFeed page s =
          waitForNotificationsFeed page
            (s\<lparr>retryCount := retryCount s + 1, delays := delays s + 1\<rparr>)"
        using None False by (rule wait_retry)
      with 1(2) have "fst (waitForNotificationsFeed page
          (s\<lparr>retryCount := retryCount s + 1, delays := delays s + 1\<rparr>)) = None"
        by simp
      from 1(1) [OF None False this] show ?thesis using False eq by auto
    qed
  qed
qed

lemma wait_exhausted:
  "maxRetries \<le> retryCount s \<Longrightarrow> snd (waitForNotificationsFeed page s) = s"
  by (cases "first_feed (page (delays s)) feed_selectors") (simp_all add: wait_stop wait_found)

lemma all_le_Suc_split: "(\<forall>j\<le>Suc n. Q j) = (Q 0 \<and> (\<forall>j\<le>n. Q (Suc j)))"
proof
  assume "\<forall>j\<le>Suc n. Q j"
  then show "Q 0 \<and> (\<forall>j\<le>n. Q (Suc j))" by simp
next
  assume a: "Q 0 \<and> (\<forall>j\<le>n. Q (Suc j))"
  show "\<forall>j\<le>Suc n. Q j"
  proof (intro allI impI)
    fix j assume "j \<le> Suc n"
    then show "Q j" using a by (cases j) simp_all
  qed
qed

lemma all_less_Suc_split: "(\<forall>j<Suc n. Q j) = (Q 0 \<and> (\<forall>j<n. Q (Suc j)))"
proof
  assume "\<forall>j<Suc n. Q j"
  then show "Q 0 \<and> (\<forall>j<n. Q (Suc j))" by simp
next
  assume a: "Q 0 \<and> (\<forall>j<n. Q (Suc j))"
  show "\<forall>j<Suc n. Q j"
  proof (intro allI impI)
    fix j assume "j < Suc n"
    then show "Q j" using a by (cases j) simp_all
  qed
qed

lemma wait_None_iff:
  "(fst (waitForNotificationsFeed page s) = None) =
     (\<forall>j\<le>maxRetries - retryCount s. first_feed (page (delays s + j)) feed_selectors = None)"
proof (induction page s rule: waitForNotificationsFeed.induct)
  case (1 page s)
  show ?case
  proof (cases "first_feed (page (delays s)) feed_selectors")
    case (Some f)
    then have "\<not> (\<forall>j\<le>maxRetries - retryCount s.
        first_feed (page (delays s + j)) feed_selectors = None)"
      by (auto intro: exI [of _ 0])
    then show ?thesis using Some by (simp add: wait_found)
  next
    case None
    show ?thesis
    proof (cases "maxRetries \<le> retryCount s")
      case True
      with None show ?thesis by (simp add: wait_stop)
    next
      case False
      then have n: "maxRetries - retryCount s = Suc (maxRetries - (retryCount s + 1))" by simp
      have eq: "waitForNotificationsFeed page s =
          waitForNotificationsFeed page
            (s\<lparr>retryCount := retryCount s + 1, delays := delays s + 1\<rparr>)"
        using None False by (rule wait_retry)
      show ?thesis
        unfolding eq n all_le_Suc_split
        using 1 [OF None False] None by simp
    qed
  qed
qed

lemma wait_None_state:
  "fst (waitForNotificationsFeed page s) = None \<Longrightarrow>
     delays (snd (waitForNotificationsFeed page s)) = delays s + (maxRetries - retryCount s)
     \<and> retryCount (snd (waitForNotificationsFeed page s))
         = retryCount s + (maxRetries - retryCount s)"
proof (induction page s rule: waitForNotificationsFeed.induct)
  case (1 page s)
  show ?case
  proof (cases "first_feed (page (delays s)) feed_selectors")
    case (Some f)
    with 1(2) show ?thesis by (simp add: wait_found)
  next
    case None
    show ?thesis
    proof (cases "maxRetries \<le> retryCount s")
      case True
      with None show ?thesis by (simp add: wait_stop)
    next
      case False
      have eq: "waitForNotificationsFeed page s =
          waitForNotificationsFeed page
            (s\<lparr>retryCount := retryCount s + 1, delays := delays s + 1\<rparr>)"
        using None False by (rule wait_retry)
      with 1(2) have "fst (waitForNotificationsFeed page
          (s\<lparr>retryCount := retryCount s + 1, delays := delays s + 1\<rparr>)) = None"
        by simp
      from 1(1) [OF None False this] show ?thesis using False eq by auto
    qed
  qed
qed

lemma wait_Some:
  "fst (waitForNotificationsFeed page s) = Some feed \<Longrightarrow>
     first_feed (page (delays (snd (waitForNotificationsFeed page s)))) feed_selectors = Some feed
     \<and> delays s \<le> delays (snd (waitForNotificationsFeed page s))
     \<and> (\<forall>j<delays (snd (waitForNotificationsFeed page s)) - delays s.
           first_feed (page (delays s + j)) feed_selectors = None)"
proof (induction page s rule: waitForNotificationsFeed.induct)
  case (1 page s)
  show ?case
  proof (cases "first_feed (page (delays s)) feed_selectors")
    case (Some f)
    with 1(2) show ?thesis by (simp add: wait_found)
  next
    case None
    show ?thesis
    proof (cases "maxRetries \<le> retryCount s")
      case True
      with None 1(2) show ?thesis by (simp add: wait_stop)
    next
      case False
      let ?s = "s\<lparr>retryCount := retryCount s + 1, delays := delays s + 1\<rparr>"
      have eq: "waitForNotificationsFeed page s = waitForNotificationsFeed page ?s"
        using None False by (rule wait_retry)
      with 1(2) have "fst (waitForNotificationsFeed page ?s) = Some feed"
        by simp
      from 1(1) [OF None False this]
      have found: "first_feed (page (delays (snd (waitForNotificationsFeed page ?s))))
             feed_selectors = Some feed"
        and le: "Suc (delays s) \<le> delays (snd (waitForNotificationsFeed page ?s))"
        and before: "\<forall>j<delays (snd (waitForNotificationsFeed page ?s)) - Suc (delays s).
           first_feed (page (Suc (delays s + j))) feed_selectors = None"
        by simp_all
      from le have d: "delays (snd (waitForNotificationsFeed page ?s)) - delays s
          = Suc (delays (snd (waitForNotificationsFeed page ?s)) - Suc (delays s))"
        by simp
      show ?thesis
        unfolding eq d all_less_Suc_split
        using found le before None by simp
    qed
  qed
qed

lemma wait_never_there:
  "waitForNotificationsFeed never_there \<lparr>retryCount = 0, delays = 0\<rparr>
     = (None, \<lparr>retryCount = 10, delays = 10\<rparr>)"
  by code_simp

lemma wait_there_after_3:
  "waitForNotificationsFeed there_after_3 \<lparr>retryCount = 0, delays = 0\<rparr> =
     (Some (Element True ''section'' [(''role'', ''region'')] []),
      \<lparr>retryCount = 3, delays = 3\<rparr>)"
  by code_simp

lemma never_there_absent: "first_feed (never_there k) feed_selectors = None"
  by code_simp

text \<open>
  C9. \<open>waitForNotificationsFeed\<close> is a total function: its recursion
  terminates because each retry increases \<open>retryCount\<close> towards
  \<open>maxRetries\<close>, which is 10. From any state it waits at most
  \<open>maxRetries - retryCount\<close> delays, one per retry. It returns no feed exactly
  when the feed is on the page at none of the attempts, the first and one
  after each of the \<open>maxRetries - retryCount\<close> delays, and it has then made all
  these retries; when it returns a feed, that is the feed of the page at its
  last attempt, and no attempt before found one. Started by the detector (no
  retry and no delay yet) it waits at most 10 delays; when it returns no
  feed, \<open>retryCount\<close> is 10, and a later call on any page returns without
  another retry or delay.
\<close>

theorem feed_wait_bounded:
  "delays (snd (waitForNotificationsFeed page s)) - delays s \<le> maxRetries - retryCount s
   \<and> delays (snd (waitForNotificationsFeed page s)) - delays s
       = retryCount (snd (waitForNotificationsFeed page s)) - retryCount s
   \<and> maxRetries = 10
   \<and> (fst (waitForNotificationsFeed page s) = None) =
       (\<forall>j\<le>maxRetries - retryCount s. first_feed (page (delays s + j)) feed_selectors = None)
   \<and> (fst (waitForNotificationsFeed page s) = None \<longrightarrow>
        delays (snd (waitForNotificationsFeed page s)) = delays s + (maxRetries - retryCount s)
        \<and> retryCount (snd (waitForNotificationsFeed page s))
            = retryCount s + (maxRetries - retryCount s))
   \<and> (\<forall>feed. fst (waitForNotificationsFeed page s) = Some feed \<longrightarrow>
        first_feed (page (delays (snd (waitForNotificationsFeed page s)))) feed_selectors
          = Some feed
        \<and> (\<forall>j<delays (snd (waitForNotificationsFeed page s)) - delays s.
              first_feed (page (delays s + j)) feed_selectors = None))
   \<and> (retryCount s = 0 \<longrightarrow> delays s = 0 \<longrightarrow>
        delays (snd (waitForNotificationsFeed page s)) \<le> 10
        \<and> (fst (waitForNotificationsFeed page s) = None \<longrightarrow>
             retryCount (snd (waitForNotificationsFeed page s)) = 10
             \<and> (\<forall>page'. snd (waitForNotificationsFeed page' (snd (waitForNotificationsFeed page s)))
                    = snd (waitForNotificationsFeed page s))))"
proof -
  have a: "delays (snd (waitForNotificationsFeed page s)) - delays s \<le> maxRetries - retryCount s"
    and b: "delays (snd (waitForNotificationsFeed page s)) - delays s
       = retryCount (snd (waitForNotificationsFeed page s)) - retryCount s"
    using wait_delays [of page s] by simp_all
  have c: "delays (snd (waitForNotificationsFeed page s)) \<le> 10"
    if "retryCount s = 0" "delays s = 0"
    using a that by (simp add: maxRetries_def)
  have d: "retryCount (snd (waitForNotificationsFeed page s)) = 10
      \<and> (\<forall>page'. snd (waitForNotificationsFeed page' (snd (waitForNotificationsFeed page s)))
                    = snd (waitForNotificationsFeed page s))"
    if "retryCount s = 0" "fst (waitForNotificationsFeed page s) = None"
  proof -
    have "retryCount (snd (waitForNotificationsFeed page s)) = maxRetries"
      using wait_None_state [OF that(2)] that(1) by simp
    then show ?thesis by (simp add: wait_exhausted maxRetries_def)
  qed
  have m: "maxRetries = 10" by (simp add: maxRetries_def)
  show ?thesis
    using a b c d m wait_None_iff [of page s] wait_None_state [of page s] wait_Some [of page s]
    by blast
qed

text \<open>
  On a page where the feed never appears the wait ends after 10 delays with no
  feed, and a call in that state makes no further delay even when the feed
  is there by then; on a page where it appears after 3 delays the wait
  returns it after 3 retries.
\<close>

theorem feed_wait_bounded_witness:
  "(\<forall>k. first_feed (never_there k) feed_selectors = None)
   \<and> waitForNotificationsFeed never_there \<lparr>retryCount = 0, delays = 0\<rparr>
     = (None, \<lparr>retryCount = 10, delays = 10\<rparr>)
   \<and> snd (waitForNotificationsFeed there_after_3 \<lparr>retryCount = 10, delays = 10\<rparr>)
     = \<lparr>retryCount = 10, delays = 10\<rparr>
   \<and> waitForNotificationsFeed there_after_3 \<lparr>retryCount = 0, delays = 0\<rparr> =
      (Some (Element True ''section'' [(''role'', ''region'')] []),
       \<lparr>retryCount = 3, delays = 3\<rparr>)
   \<and> first_feed (there_after_3 3) feed_selectors
       = Some (Element True ''section'' [(''role'', ''region'')] [])"
  using feed_wait_bounded [of never_there "\<lparr>retryCount = 0, delays = 0\<rparr>"]
    feed_wait_bounded [of there_after_3 "\<lparr>retryCount = 0, delays = 0\<rparr>"]
  by (simp add: wait_never_there wait_there_after_3 never_there_absent)

end
